theory Spec2Isabelle
  imports Main "HOL-Library.Sublist" "HOL-Library.Multiset"
begin

section \<open>Errors\<close>

text \<open>
  The exceptions the backend raises.  \<open>NotFoundError\<close> and \<open>UnauthorizedError\<close> come from
  \<^verbatim>\<open>expressError\<close>; \<open>DatabaseError\<close> is a rejection of \<^verbatim>\<open>db.query\<close>; \<open>ReferenceError\<close> and
  \<open>TypeError\<close> are the JavaScript runtime's own.
\<close>

datatype error = NotFoundError | UnauthorizedError | DatabaseError | ReferenceError | TypeError

section \<open>The auth middleware (backend/middleware/auth.js)\<close>

text \<open>
  A request carries what the middleware reads: \<^verbatim>\<open>req.headers\<close> (possibly absent) with its
  \<^verbatim>\<open>authorization\<close> field, \<^verbatim>\<open>req.user\<close>, \<^verbatim>\<open>req.params.username\<close> and \<^verbatim>\<open>req.body.username\<close>.
  \<open>None\<close> is JavaScript's \<^verbatim>\<open>undefined\<close>.  \<^verbatim>\<open>req.params\<close> and \<^verbatim>\<open>req.body\<close> themselves are
  objects, as Express and its body parser provide them.
\<close>

record jwt_payload =
  payload_username :: "string option"

record header_fields =
  hdr_authorization :: "string option"

record express_req =
  req_headers :: "header_fields option"
  req_user :: "jwt_payload option"
  params_username :: "string option"
  body_username :: "string option"

text \<open>
  A middleware ends in \<^verbatim>\<open>next()\<close> (\<open>Inr\<close>, with the request as it is then) or in
  \<^verbatim>\<open>next(err)\<close> (\<open>Inl\<close>).
\<close>

type_synonym middleware_result = "error + express_req"

text \<open>\<^verbatim>\<open>a || b\<close> on strings that may be undefined: the empty string is falsy.\<close>

definition js_or :: "string option \<Rightarrow> string option \<Rightarrow> string option" where
  "js_or a b = (case a of None \<Rightarrow> b | Some s \<Rightarrow> if s = [] then b else Some s)"

text \<open>\<^verbatim>\<open>authHeader.replace(/^[Bb]earer /, "")\<close>\<close>

definition replace_bearer :: "string \<Rightarrow> string" where
  "replace_bearer s =
     (if prefix ''Bearer '' s \<or> prefix ''bearer '' s then drop 7 s else s)"

text \<open>
  \<^verbatim>\<open>String.prototype.trim\<close>.  A header value is a string of Latin-1 code units; the white
  space and line terminators of ECMAScript among them are TAB, LF, VT, FF, CR, SP and NBSP.
\<close>

definition is_js_space :: "char \<Rightarrow> bool" where
  "is_js_space c \<longleftrightarrow>
     c \<in> {CHR 0x09, CHR 0x0A, CHR 0x0B, CHR 0x0C, CHR 0x0D, CHR 0x20, CHR 0xA0}"

definition trim :: "string \<Rightarrow> string" where
  "trim s = rev (dropWhile is_js_space (rev (dropWhile is_js_space s)))"

text \<open>
  \<^verbatim>\<open>req.headers && req.headers.authorization\<close>
\<close>

definition authHeader_of :: "express_req \<Rightarrow> string option" where
  "authHeader_of req =
     (case req_headers req of None \<Rightarrow> None | Some h \<Rightarrow> hdr_authorization h)"

text \<open>
  \<^verbatim>\<open>authenticateJWT\<close>.  \<^verbatim>\<open>jwt.verify\<close> belongs to the jsonwebtoken library and
  \<^verbatim>\<open>SECRET_KEY\<close> to the configuration: both are parameters.  \<open>verify token key\<close> is
  \<open>Some payload\<close> when the library returns the payload and \<open>None\<close> when it throws; the
  \<^verbatim>\<open>catch\<close> branch calls \<^verbatim>\<open>next()\<close> all the same.
\<close>

definition authenticateJWT ::
  "(string \<Rightarrow> string \<Rightarrow> jwt_payload option) \<Rightarrow> string \<Rightarrow> express_req \<Rightarrow> middleware_result" where
  "authenticateJWT verify SECRET_KEY req =
     (case authHeader_of req of
        None \<Rightarrow> Inr req
      | Some authHeader \<Rightarrow>
          if authHeader = [] then Inr req
          else (let token = trim (replace_bearer authHeader) in
                case verify token SECRET_KEY of
                  None \<Rightarrow> Inr req
                | Some payload \<Rightarrow> Inr (req\<lparr>req_user := Some payload\<rparr>)))"

text \<open>
  \<^verbatim>\<open>ensureLoggedIn\<close>: \<^verbatim>\<open>req.user && req.user.username\<close> must be truthy.
\<close>

definition ensureLoggedIn :: "express_req \<Rightarrow> middleware_result" where
  "ensureLoggedIn req =
     (case req_user req of
        None \<Rightarrow> Inl UnauthorizedError
      | Some u \<Rightarrow>
          (case payload_username u of
             None \<Rightarrow> Inl UnauthorizedError
           | Some n \<Rightarrow> if n = [] then Inl UnauthorizedError else Inr req))"

text \<open>
  \<^verbatim>\<open>ensureCorrectUser\<close>:
  \<^verbatim>\<open>if (!(user && user.username === (req.params.username || req.body.username))) throw ...\<close>
\<close>

definition ensureCorrectUser :: "express_req \<Rightarrow> middleware_result" where
  "ensureCorrectUser req =
     (case req_user req of
        None \<Rightarrow> Inl UnauthorizedError
      | Some u \<Rightarrow>
          if payload_username u = js_or (params_username req) (body_username req)
          then Inr req
          else Inl UnauthorizedError)"

text \<open>
  The username the specification compares with: the route parameter if present, otherwise
  the one of the request body.
\<close>

definition spec_target_username :: "express_req \<Rightarrow> string option" where
  "spec_target_username req =
     (case params_username req of Some n \<Rightarrow> Some n | None \<Rightarrow> body_username req)"

text \<open>
  The token the specification verifies: the header without an optional \<open>Bearer \<close> prefix
  in any letter case.
\<close>

definition ascii_lower :: "char \<Rightarrow> char" where
  "ascii_lower c =
     (case map_of (zip ''ABCDEFGHIJKLMNOPQRSTUVWXYZ'' ''abcdefghijklmnopqrstuvwxyz'') c of
        None \<Rightarrow> c
      | Some l \<Rightarrow> l)"

definition spec_strip_bearer :: "string \<Rightarrow> string" where
  "spec_strip_bearer s =
     (if map ascii_lower (take 7 s) = ''bearer '' then drop 7 s else s)"

section \<open>The frontend client (wonder-journal/src/api.js)\<close>

text \<open>JavaScript values, as far as \<^verbatim>\<open>request\<close> looks into them.\<close>

datatype jsval =
    JUndefined
  | JNull
  | JBool bool
  | JNum int
  | JStr string
  | JArr "jsval list"
  | JObj "(string \<times> jsval) list"

text \<open>What a rejected promise carries: a thrown value, or the runtime's TypeError.\<close>

datatype thrown = ThrownTypeError | ThrownValue jsval

text \<open>
  Property access \<^verbatim>\<open>v.k\<close> for the keys \<^verbatim>\<open>response\<close>, \<^verbatim>\<open>data\<close>, \<^verbatim>\<open>error\<close> and \<^verbatim>\<open>message\<close>:
  a TypeError on \<^verbatim>\<open>undefined\<close> and \<^verbatim>\<open>null\<close>, the field of an object, and \<^verbatim>\<open>undefined\<close>
  where there is no such field (none of these keys is a property of a boolean, number,
  string or array).
\<close>

fun get_prop :: "jsval \<Rightarrow> string \<Rightarrow> thrown + jsval" where
  "get_prop JUndefined k = Inl ThrownTypeError"
| "get_prop JNull k = Inl ThrownTypeError"
| "get_prop (JObj kvs) k = Inr (case map_of kvs k of None \<Rightarrow> JUndefined | Some v \<Rightarrow> v)"
| "get_prop v k = Inr JUndefined"

fun isArray :: "jsval \<Rightarrow> bool" where
  "isArray (JArr xs) = True"
| "isArray v = False"

text \<open>\<^verbatim>\<open>err.response.data.error.message\<close>\<close>

definition error_message :: "jsval \<Rightarrow> thrown + jsval" where
  "error_message err =
     (case get_prop err ''response'' of
        Inl t \<Rightarrow> Inl t
      | Inr response \<Rightarrow>
          (case get_prop response ''data'' of
             Inl t \<Rightarrow> Inl t
           | Inr d \<Rightarrow>
               (case get_prop d ''error'' of
                  Inl t \<Rightarrow> Inl t
                | Inr e \<Rightarrow> get_prop e ''message'')))"

text \<open>
  The outcome of the \<^verbatim>\<open>axios\<close> call: it resolves with a response, whose \<^verbatim>\<open>data\<close> is
  returned, or rejects with an error value.
\<close>

datatype axios_outcome = Resolved jsval | Rejected jsval

definition request :: "axios_outcome \<Rightarrow> thrown + jsval" where
  "request outcome =
     (case outcome of
        Resolved response \<Rightarrow> get_prop response ''data''
      | Rejected err \<Rightarrow>
          (case error_message err of
             Inl t \<Rightarrow> Inl t
           | Inr message \<Rightarrow>
               Inl (ThrownValue (if isArray message then message else JArr [message]))))"

fun thrown_is_array :: "thrown \<Rightarrow> bool" where
  "thrown_is_array (ThrownValue v) = isArray v"
| "thrown_is_array ThrownTypeError = False"

section \<open>The database\<close>

text \<open>
  The relational tables the model layer queries.  A row keeps the columns the queries of
  \<^verbatim>\<open>models/moment.js\<close> read or write; a date is a number on the time line.  Ids are the
  primary keys of their tables.  A string is a sequence of 8-bit characters.
\<close>

record moment_row =
  moment_id :: int
  moment_title :: string
  moment_text :: string
  moment_date :: int
  moment_username :: string

record media_row =
  media_id :: int
  media_type :: string
  media_url :: string
  media_moment_id :: int

record tag_row =
  tag_id :: int
  tag_name :: string

record moment_tag_row =
  mt_moment_id :: int
  mt_tag_id :: int

text \<open>The values bound to the placeholders \<^verbatim>\<open>$1\<close>, \<^verbatim>\<open>$2\<close>, ... of a query.\<close>

datatype sqlval = SText string | SDate int | SInt int

text \<open>
  A database is its tables together with two things that the schema and the setup of the
  server fix and that are no part of the sources: which parameter values it accepts (an
  integer column takes integers of its range only, a text no NUL character, a date column
  the dates of its range), and how its locale folds letter case, character by character.
  \<^verbatim>\<open>db.query\<close> rejects a statement one of whose parameters the database does not accept.
\<close>

record database =
  users :: "string list"
  moments :: "moment_row list"
  moment_media :: "media_row list"
  tags :: "tag_row list"
  moments_tags :: "moment_tag_row list"
  accepts :: "sqlval \<Rightarrow> bool"
  lc_lower :: "char \<Rightarrow> char"

definition binds :: "database \<Rightarrow> sqlval list \<Rightarrow> bool" where
  "binds db vs = list_all (accepts db) vs"

text \<open>\<^verbatim>\<open>$k\<close> is the \<open>k\<close>-th element of the parameter array, counted from 1.\<close>

definition param :: "sqlval list \<Rightarrow> nat \<Rightarrow> sqlval option" where
  "param vs k = (if 0 < k \<and> k \<le> length vs then Some (vs ! (k - 1)) else None)"

subsection \<open>LIKE patterns\<close>

text \<open>
  PostgreSQL's \<^verbatim>\<open>LIKE\<close>, pattern first: \<^verbatim>\<open>%\<close> matches any run of characters, \<^verbatim>\<open>_\<close> any
  one character, a backslash makes the character after it literal.  (A pattern that ends
  in an unescaped backslash is an error in PostgreSQL; here it matches nothing.  The
  patterns of \<^verbatim>\<open>findAll\<close> end in \<^verbatim>\<open>%\<close>.)
\<close>

fun like_match :: "string \<Rightarrow> string \<Rightarrow> bool" where
  "like_match [] s = (s = [])"
| "like_match (p # ps) [] = (p = CHR ''%'' \<and> like_match ps [])"
| "like_match (p # ps) (c # cs) =
     (if p = CHR ''%'' then like_match ps (c # cs) \<or> like_match (p # ps) cs
      else if p = CHR ''_'' then like_match ps cs
      else if p = CHR 0x5C then (case ps of [] \<Rightarrow> False | q # qs \<Rightarrow> c = q \<and> like_match qs cs)
      else c = p \<and> like_match ps cs)"

text \<open>
  \<^verbatim>\<open>ILIKE\<close> compares without regard to letter case: pattern and string are folded to
  lower case as the locale of the database has it, then matched.
\<close>

definition ilike :: "(char \<Rightarrow> char) \<Rightarrow> string \<Rightarrow> string \<Rightarrow> bool" where
  "ilike lower pattern s = like_match (map lower pattern) (map lower s)"

definition is_wildcard :: "char \<Rightarrow> bool" where
  "is_wildcard c \<longleftrightarrow> c = CHR ''%'' \<or> c = CHR ''_'' \<or> c = CHR 0x5C"

definition wildcard_free :: "string \<Rightarrow> bool" where
  "wildcard_free s = list_all (\<lambda>c. \<not> is_wildcard c) s"

text \<open>
  A locale folds letters: it leaves \<^verbatim>\<open>%\<close>, \<^verbatim>\<open>_\<close> and the backslash alone and folds no
  other character to one of them.
\<close>

definition locale_ok :: "database \<Rightarrow> bool" where
  "locale_ok db \<longleftrightarrow>
     (\<forall>c. is_wildcard c \<or> is_wildcard (lc_lower db c) \<longrightarrow> lc_lower db c = c)"

subsection \<open>Conditions on a moments row\<close>

datatype moment_column = ColUsername | ColTitle | ColText | ColDate

datatype comparison = Equals | ILike | AtLeast | AtMost

text \<open>
  One element of \<^verbatim>\<open>whereExpressions\<close>: \<^verbatim>\<open>m.<column> <operator> $<k>\<close>.
\<close>

type_synonym where_expression = "moment_column \<times> comparison \<times> nat"

fun column_name :: "moment_column \<Rightarrow> string" where
  "column_name ColUsername = ''username''"
| "column_name ColTitle = ''title''"
| "column_name ColText = ''text''"
| "column_name ColDate = ''date''"


fun column_value :: "moment_row \<Rightarrow> moment_column \<Rightarrow> sqlval" where
  "column_value m ColUsername = SText (moment_username m)"
| "column_value m ColTitle = SText (moment_title m)"
| "column_value m ColText = SText (moment_text m)"
| "column_value m ColDate = SDate (moment_date m)"

text \<open>
  \<open>compare_sql lower opr column_value parameter\<close>; \<open>None\<close> where the operand types do
  not fit, which the database rejects.
\<close>

fun compare_sql :: "(char \<Rightarrow> char) \<Rightarrow> comparison \<Rightarrow> sqlval \<Rightarrow> sqlval \<Rightarrow> bool option" where
  "compare_sql lower Equals (SText a) (SText b) = Some (a = b)"
| "compare_sql lower Equals (SDate a) (SDate b) = Some (a = b)"
| "compare_sql lower ILike (SText a) (SText pattern) = Some (ilike lower pattern a)"
| "compare_sql lower AtLeast (SDate a) (SDate b) = Some (a \<ge> b)"
| "compare_sql lower AtMost (SDate a) (SDate b) = Some (a \<le> b)"
| "compare_sql lower opr a b = None"

definition eval_where ::
  "database \<Rightarrow> sqlval list \<Rightarrow> moment_row \<Rightarrow> where_expression \<Rightarrow> bool option" where
  "eval_where db vs m w =
     (case w of (c, opr, k) \<Rightarrow>
        (case param vs k of
           None \<Rightarrow> None
         | Some v \<Rightarrow> compare_sql (lc_lower db) opr (column_value m c) v))"

text \<open>
  A condition is accepted when its placeholder is bound and the types fit; this does not
  depend on the row.
\<close>

definition blank_moment :: moment_row where
  "blank_moment =
     \<lparr>moment_id = 0, moment_title = [], moment_text = [], moment_date = 0,
      moment_username = []\<rparr>"

definition where_ok :: "database \<Rightarrow> sqlval list \<Rightarrow> where_expression \<Rightarrow> bool" where
  "where_ok db vs w = (eval_where db vs blank_moment w \<noteq> None)"

definition where_holds ::
  "database \<Rightarrow> sqlval list \<Rightarrow> moment_row \<Rightarrow> where_expression \<Rightarrow> bool" where
  "where_holds db vs m w = (eval_where db vs m w = Some True)"

subsection \<open>The SELECT of findAll\<close>

text \<open>
  \<^verbatim>\<open>FROM moments m LEFT JOIN moments_tags mt ON mt.moment_id = m.id
  LEFT JOIN tags t ON t.id = mt.tag_id\<close>: the tags joined to one moment.
\<close>

definition joined_tags :: "database \<Rightarrow> moment_row \<Rightarrow> tag_row list" where
  "joined_tags db m =
     concat (map (\<lambda>mt. filter (\<lambda>t. tag_id t = mt_tag_id mt) (tags db))
                 (filter (\<lambda>mt. mt_moment_id mt = moment_id m) (moments_tags db)))"

text \<open>A row of the result: \<^verbatim>\<open>m.id, m.title, m.text, m.date, tags\<close>.\<close>

record found_moment =
  found_id :: int
  found_title :: string
  found_text :: string
  found_date :: int
  found_tags :: "tag_row list"

definition found_row :: "database \<Rightarrow> moment_row \<Rightarrow> found_moment" where
  "found_row db m =
     \<lparr>found_id = moment_id m, found_title = moment_title m, found_text = moment_text m,
      found_date = moment_date m, found_tags = joined_tags db m\<rparr>"

text \<open>
  \<^verbatim>\<open>HAVING $k = ANY (array_agg(t.name))\<close>: the parameter is among the names of the joined
  tags (the NULL of a moment without tags equals nothing).
\<close>

definition having_ok :: "sqlval list \<Rightarrow> nat option \<Rightarrow> bool" where
  "having_ok vs having =
     (case having of
        None \<Rightarrow> True
      | Some k \<Rightarrow> (case param vs k of Some (SText g) \<Rightarrow> True | _ \<Rightarrow> False))"

definition having_holds :: "database \<Rightarrow> sqlval list \<Rightarrow> moment_row \<Rightarrow> nat option \<Rightarrow> bool" where
  "having_holds db vs m having =
     (case having of
        None \<Rightarrow> True
      | Some k \<Rightarrow>
          (case param vs k of
             Some (SText g) \<Rightarrow> g \<in> set (map tag_name (joined_tags db m))
           | _ \<Rightarrow> False))"

text \<open>
  \<^verbatim>\<open>ORDER BY m.date DESC\<close>.  SQL leaves the order of rows with equal dates open; the model
  keeps them in table order.
\<close>

definition order_by_date_desc :: "found_moment list \<Rightarrow> found_moment list" where
  "order_by_date_desc rows = sort_key (\<lambda>r. - found_date r) rows"

text \<open>
  The query of \<^verbatim>\<open>findAll\<close> as the database runs it: the conditions of the WHERE clause,
  the placeholder of the HAVING clause if there is one, and the parameter array.
  \<^verbatim>\<open>GROUP BY m.id\<close> groups by the primary key, so each group is one moment.  The query is
  rejected when the database does not accept one of the parameters, when a placeholder is
  not bound and when the types of a comparison do not fit.
\<close>

definition select_moments ::
  "database \<Rightarrow> where_expression list \<Rightarrow> nat option \<Rightarrow> sqlval list \<Rightarrow> error + found_moment list" where
  "select_moments db ws having vs =
     (if binds db vs \<and> list_all (where_ok db vs) ws \<and> having_ok vs having
      then Inr (order_by_date_desc
                 (map (found_row db)
                    (filter (\<lambda>m. list_all (where_holds db vs m) ws \<and> having_holds db vs m having)
                       (moments db))))
      else Inl DatabaseError)"

section \<open>The moment model (backend/models/moment.js)\<close>

subsection \<open>Rendering the query text\<close>

text \<open>A number in a template literal: its decimal digits.\<close>

fun show_nat :: "nat \<Rightarrow> string" where
  "show_nat n =
     (if n < 10 then [''0123456789'' ! n]
      else show_nat (n div 10) @ [''0123456789'' ! (n mod 10)])"

declare show_nat.simps [simp del]

fun join :: "string \<Rightarrow> string list \<Rightarrow> string" where
  "join sep [] = []"
| "join sep [x] = x"
| "join sep (x # y # ys) = x @ sep @ join sep (y # ys)"




subsection \<open>findAll\<close>

record searchFilters =
  filter_tag :: "string option"
  filter_title :: "string option"
  filter_text :: "string option"
  filter_dateStart :: "int option"
  filter_dateEnd :: "int option"

text \<open>
  \<^verbatim>\<open>queryValues.push(v); whereExpressions.push(`m.<c> <opr> $${queryValues.length}`)\<close>
\<close>

definition push_where ::
  "moment_column \<Rightarrow> comparison \<Rightarrow> sqlval \<Rightarrow> where_expression list \<times> sqlval list
     \<Rightarrow> where_expression list \<times> sqlval list" where
  "push_where c opr v st =
     (case st of (whereExpressions, queryValues) \<Rightarrow>
        (let queryValues' = queryValues @ [v]
         in (whereExpressions @ [(c, opr, length queryValues')], queryValues')))"

text \<open>
  The part of \<^verbatim>\<open>findAll\<close> that assembles the query: \<^verbatim>\<open>whereExpressions\<close>, the
  placeholder of the HAVING clause, and \<^verbatim>\<open>queryValues\<close>.  \<^verbatim>\<open>if (username)\<close> tests a
  string: the empty string is falsy.
\<close>

definition findAll_query ::
  "string \<Rightarrow> searchFilters \<Rightarrow> where_expression list \<times> nat option \<times> sqlval list" where
  "findAll_query username f =
     (let s0 = ([], []);
          s1 = (if username \<noteq> [] then push_where ColUsername Equals (SText username) s0 else s0);
          s2 = (case filter_title f of
                  None \<Rightarrow> s1
                | Some title \<Rightarrow> push_where ColTitle ILike (SText (''%'' @ title @ ''%'')) s1);
          s3 = (case filter_text f of
                  None \<Rightarrow> s2
                | Some txt \<Rightarrow> push_where ColText ILike (SText (''%'' @ txt @ ''%'')) s2);
          s4 = (case filter_dateStart f of
                  None \<Rightarrow> s3
                | Some dateStart \<Rightarrow> push_where ColDate AtLeast (SDate dateStart) s3);
          s5 = (case filter_dateEnd f of
                  None \<Rightarrow> s4
                | Some dateEnd \<Rightarrow> push_where ColDate AtMost (SDate dateEnd) s4)
      in (case filter_tag f of
            None \<Rightarrow> (fst s5, None, snd s5)
          | Some tag \<Rightarrow>
              (let queryValues' = snd s5 @ [SText tag]
               in (fst s5, Some (length queryValues'), queryValues'))))"



text \<open>
  \<^verbatim>\<open>Moment.findAll\<close>: the check that the user exists, a query with the username as its
  parameter, then the filtered query.  A rejection of either query is thrown on.
\<close>

definition findAll :: "database \<Rightarrow> string \<Rightarrow> searchFilters \<Rightarrow> error + found_moment list" where
  "findAll db username f =
     (if \<not> binds db [SText username] then Inl DatabaseError
      else (case filter (\<lambda>u. u = username) (users db) of
              [] \<Rightarrow> Inl NotFoundError
            | user # _ \<Rightarrow>
                (case findAll_query username f of
                   (ws, having, vs) \<Rightarrow> select_moments db ws having vs)))"

subsection \<open>get\<close>

text \<open>What \<^verbatim>\<open>Moment.get\<close> returns: the moments row with its media and tags.\<close>

record moment_detail =
  detail_moment :: moment_row
  detail_media :: "media_row list"
  detail_tags :: "tag_row list"

text \<open>
  \<^verbatim>\<open>SELECT id, name FROM tags JOIN moments_tags mt ON id = mt.tag_id WHERE mt.moment_id = $1\<close>
\<close>

definition tags_of_moment :: "database \<Rightarrow> int \<Rightarrow> tag_row list" where
  "tags_of_moment db i =
     concat (map (\<lambda>t. map (\<lambda>mt. t)
                         (filter (\<lambda>mt. tag_id t = mt_tag_id mt \<and> mt_moment_id mt = i)
                            (moments_tags db)))
                 (tags db))"

text \<open>
  \<^verbatim>\<open>Moment.get\<close>: \<^verbatim>\<open>SELECT ... FROM moments WHERE id = $1\<close> with the id as its parameter,
  then the media and the tags of the row found, by its id.
\<close>

definition get :: "database \<Rightarrow> int \<Rightarrow> error + moment_detail" where
  "get db i =
     (if \<not> binds db [SInt i] then Inl DatabaseError
      else (case filter (\<lambda>m. moment_id m = i) (moments db) of
              [] \<Rightarrow> Inl NotFoundError
            | moment # _ \<Rightarrow>
                Inr \<lparr>detail_moment = moment,
                     detail_media =
                       filter (\<lambda>r. media_moment_id r = moment_id moment) (moment_media db),
                     detail_tags = tags_of_moment db (moment_id moment)\<rparr>))"

subsection \<open>update\<close>

text \<open>
  The payload of \<^verbatim>\<open>Moment.update\<close>: an object whose keys are among \<^verbatim>\<open>title\<close>, \<^verbatim>\<open>text\<close>
  and \<^verbatim>\<open>date\<close>; \<open>None\<close> is a key that is not there.
\<close>

record update_data =
  data_title :: "string option"
  data_text :: "string option"
  data_date :: "int option"

definition data_entries :: "update_data \<Rightarrow> (moment_column \<times> sqlval) list" where
  "data_entries d =
     (case data_title d of None \<Rightarrow> [] | Some t \<Rightarrow> [(ColTitle, SText t)])
     @ (case data_text d of None \<Rightarrow> [] | Some t \<Rightarrow> [(ColText, SText t)])
     @ (case data_date d of None \<Rightarrow> [] | Some t \<Rightarrow> [(ColDate, SDate t)])"

text \<open>
  Modelled from the spec: \<^verbatim>\<open>sqlForPartialUpdate\<close> of \<^verbatim>\<open>helpers/sql.js\<close>, which is not among
  the sources.  The specification calls it a straightforward string-assembly utility of a
  parameterized query builder: for the keys of the data in their order it assembles the
  assignments \<^verbatim>\<open>"<column>"=$<k>\<close>, \<open>k\<close> counting from 1, and returns them (\<^verbatim>\<open>setCols\<close>)
  with the values of the data (\<^verbatim>\<open>values\<close>).
\<close>

definition sqlForPartialUpdate :: "update_data \<Rightarrow> (moment_column \<times> nat) list \<times> sqlval list" where
  "sqlForPartialUpdate d =
     (map (\<lambda>(idx, c, v). (c, idx + 1)) (enumerate 0 (data_entries d)),
      map snd (data_entries d))"

definition render_setCols :: "(moment_column \<times> nat) list \<Rightarrow> string" where
  "render_setCols setCols =
     join '', '' (map (\<lambda>(c, k). [CHR 0x22] @ column_name c @ [CHR 0x22] @ ''=$'' @ show_nat k)
                     setCols)"

text \<open>One assignment of the SET clause applied to a row, the value taken from \<^verbatim>\<open>$k\<close>.\<close>

fun set_column :: "moment_column \<Rightarrow> sqlval \<Rightarrow> moment_row \<Rightarrow> moment_row option" where
  "set_column ColTitle (SText t) m = Some (m\<lparr>moment_title := t\<rparr>)"
| "set_column ColText (SText t) m = Some (m\<lparr>moment_text := t\<rparr>)"
| "set_column ColDate (SDate t) m = Some (m\<lparr>moment_date := t\<rparr>)"
| "set_column ColUsername (SText t) m = Some (m\<lparr>moment_username := t\<rparr>)"
| "set_column c v m = None"

fun apply_sets :: "sqlval list \<Rightarrow> (moment_column \<times> nat) list \<Rightarrow> moment_row \<Rightarrow> moment_row option" where
  "apply_sets vs [] m = Some m"
| "apply_sets vs ((c, k) # sets) m =
     (case param vs k of
        None \<Rightarrow> None
      | Some v \<Rightarrow>
          (case set_column c v m of
             None \<Rightarrow> None
           | Some m' \<Rightarrow> apply_sets vs sets m'))"

text \<open>
  \<^verbatim>\<open>UPDATE moments SET <setCols> WHERE id = $<idVarIdx> RETURNING id, title, text, date,
  username\<close>.  The database rejects the statement when the SET clause is empty (a syntax
  error), when a placeholder is not bound and when a value does not have the type of its
  column; otherwise every row with the id is assigned to, and the assigned rows are
  returned.
\<close>

definition update_moments ::
  "database \<Rightarrow> (moment_column \<times> nat) list \<Rightarrow> nat \<Rightarrow> sqlval list
     \<Rightarrow> (error + moment_row list) \<times> database" where
  "update_moments db setCols idVarIdx vs =
     (if setCols = [] \<or> apply_sets vs setCols blank_moment = None then (Inl DatabaseError, db)
      else (case param vs idVarIdx of
              Some (SInt i) \<Rightarrow>
                (let assign = (\<lambda>m. case apply_sets vs setCols m of None \<Rightarrow> m | Some m' \<Rightarrow> m');
                     moments' = map (\<lambda>m. if moment_id m = i then assign m else m) (moments db)
                 in (Inr (filter (\<lambda>m. moment_id m = i) moments'), db\<lparr>moments := moments'\<rparr>))
            | _ \<Rightarrow> (Inl DatabaseError, db)))"

definition update :: "database \<Rightarrow> int \<Rightarrow> update_data \<Rightarrow> (error + moment_row) \<times> database" where
  "update db i d =
     (case sqlForPartialUpdate d of
        (setCols, values) \<Rightarrow>
          (let idVarIdx = length values + 1
           in (case update_moments db setCols idVarIdx (values @ [SInt i]) of
                 (Inl e, db') \<Rightarrow> (Inl e, db')
               | (Inr [], db') \<Rightarrow> (Inl NotFoundError, db')
               | (Inr (moment # _), db') \<Rightarrow> (Inr moment, db'))))"

text \<open>
  What the specification expects of an update: the fields of the payload replace those of
  the row, the others stay.
\<close>

definition spec_updated :: "update_data \<Rightarrow> moment_row \<Rightarrow> moment_row" where
  "spec_updated d m =
     \<lparr>moment_id = moment_id m,
      moment_title = (case data_title d of None \<Rightarrow> moment_title m | Some t \<Rightarrow> t),
      moment_text = (case data_text d of None \<Rightarrow> moment_text m | Some t \<Rightarrow> t),
      moment_date = (case data_date d of None \<Rightarrow> moment_date m | Some t \<Rightarrow> t),
      moment_username = moment_username m\<rparr>"

subsection \<open>remove\<close>

text \<open>
  The schema is not among the sources; the specification says that it has foreign keys.
  What the deletion of a moment does to the rows that refer to it is therefore a
  parameter: they go with it, or they block it.
\<close>

datatype on_delete = Cascade | Restrict

definition is_referenced :: "database \<Rightarrow> int \<Rightarrow> bool" where
  "is_referenced db i \<longleftrightarrow>
     list_ex (\<lambda>r. media_moment_id r = i) (moment_media db)
     \<or> list_ex (\<lambda>r. mt_moment_id r = i) (moments_tags db)"

text \<open>
  \<^verbatim>\<open>DELETE FROM moments WHERE id = $1 RETURNING id\<close>, rejected for an id the database
  does not accept.
\<close>

definition delete_moment :: "on_delete \<Rightarrow> database \<Rightarrow> int \<Rightarrow> (error + int list) \<times> database" where
  "delete_moment fk db i =
     (let deleted = filter (\<lambda>m. moment_id m = i) (moments db)
      in if \<not> binds db [SInt i] then (Inl DatabaseError, db)
         else if deleted = [] then (Inr [], db)
         else if fk = Restrict \<and> is_referenced db i then (Inl DatabaseError, db)
         else (Inr (map moment_id deleted),
               db\<lparr>moments := filter (\<lambda>m. moment_id m \<noteq> i) (moments db),
                  moment_media := filter (\<lambda>r. media_moment_id r \<noteq> i) (moment_media db),
                  moments_tags := filter (\<lambda>r. mt_moment_id r \<noteq> i) (moments_tags db)\<rparr>))"

definition remove :: "on_delete \<Rightarrow> database \<Rightarrow> int \<Rightarrow> (error + unit) \<times> database" where
  "remove fk db i =
     (case delete_moment fk db i of
        (Inl e, db') \<Rightarrow> (Inl e, db')
      | (Inr [], db') \<Rightarrow> (Inl NotFoundError, db')
      | (Inr (moment # _), db') \<Rightarrow> (Inr (), db'))"

subsection \<open>addMedia, removeMedia, removeTag\<close>

record media_data =
  data_type :: string
  data_url :: string

text \<open>The id a new \<^verbatim>\<open>moment_media\<close> row gets: one that no row has.\<close>

definition next_media_id :: "database \<Rightarrow> int" where
  "next_media_id db = fold max (map media_id (moment_media db)) 0 + 1"

text \<open>
  \<^verbatim>\<open>INSERT INTO moment_media (type, url, moment_id) VALUES ($1, $2, $3)
  RETURNING id, type, url, moment_id AS 'momentId'\<close>.  The alias is written in single
  quotes, as a string literal; PostgreSQL rejects that as a syntax error.  Whether the
  database accepts the statement is a parameter, so that nothing below depends on it.
\<close>

definition insert_media ::
  "bool \<Rightarrow> database \<Rightarrow> int \<Rightarrow> media_data \<Rightarrow> (error + media_row list) \<times> database" where
  "insert_media accepted db momentId d =
     (if accepted
      then (let row = \<lparr>media_id = next_media_id db, media_type = data_type d,
                       media_url = data_url d, media_moment_id = momentId\<rparr>
            in (Inr [row], db\<lparr>moment_media := moment_media db @ [row]\<rparr>))
      else (Inl DatabaseError, db))"

text \<open>
  \<^verbatim>\<open>Moment.addMedia\<close> awaits the query without keeping its result and then reads
  \<^verbatim>\<open>results.rows[0]\<close>; no \<^verbatim>\<open>results\<close> is declared anywhere, and the file is in strict mode,
  so reading it throws a ReferenceError.
\<close>

definition addMedia ::
  "bool \<Rightarrow> database \<Rightarrow> int \<Rightarrow> media_data \<Rightarrow> (error + media_row) \<times> database" where
  "addMedia accepted db momentId d =
     (case insert_media accepted db momentId d of
        (Inl e, db') \<Rightarrow> (Inl e, db')
      | (Inr rows, db') \<Rightarrow> (Inl ReferenceError, db'))"

text \<open>
  \<^verbatim>\<open>DELETE FROM moment_media WHERE id = $1\<close>.  The query is awaited without a guard: a
  rejection is thrown on; the result of a statement that ran is not looked at.
\<close>

definition removeMedia :: "database \<Rightarrow> int \<Rightarrow> (error + unit) \<times> database" where
  "removeMedia db momentMediaId =
     (if \<not> binds db [SInt momentMediaId] then (Inl DatabaseError, db)
      else (Inr (),
            db\<lparr>moment_media :=
                 filter (\<lambda>r. media_id r \<noteq> momentMediaId) (moment_media db)\<rparr>))"

text \<open>
  \<^verbatim>\<open>DELETE FROM moments_tags WHERE moment_id = $1 AND tag_id = $2\<close>, awaited without a
  guard in the same way.
\<close>

definition removeTag :: "database \<Rightarrow> int \<Rightarrow> int \<Rightarrow> (error + unit) \<times> database" where
  "removeTag db momentId tagId =
     (if \<not> binds db [SInt momentId, SInt tagId] then (Inl DatabaseError, db)
      else (Inr (),
            db\<lparr>moments_tags :=
                 filter (\<lambda>r. \<not> (mt_moment_id r = momentId \<and> mt_tag_id r = tagId))
                   (moments_tags db)\<rparr>))"

section \<open>What the specification says about findAll\<close>

text \<open>
  The moments the specification wants returned: those of the user that satisfy every
  filter given, title and text as substrings without regard to letter case (as the locale
  of the database folds it), the dates as inclusive bounds, the tag as a member of the
  names of the moment's tags.
\<close>

definition spec_matches :: "database \<Rightarrow> string \<Rightarrow> searchFilters \<Rightarrow> moment_row \<Rightarrow> bool" where
  "spec_matches db username f m \<longleftrightarrow>
     moment_username m = username
     \<and> (case filter_title f of
          None \<Rightarrow> True
        | Some t \<Rightarrow> sublist (map (lc_lower db) t) (map (lc_lower db) (moment_title m)))
     \<and> (case filter_text f of
          None \<Rightarrow> True
        | Some t \<Rightarrow> sublist (map (lc_lower db) t) (map (lc_lower db) (moment_text m)))
     \<and> (case filter_dateStart f of None \<Rightarrow> True | Some d \<Rightarrow> moment_date m \<ge> d)
     \<and> (case filter_dateEnd f of None \<Rightarrow> True | Some d \<Rightarrow> moment_date m \<le> d)
     \<and> (case filter_tag f of
          None \<Rightarrow> True
        | Some g \<Rightarrow> g \<in> set (map tag_name (joined_tags db m)))"

text \<open>What the assembled query selects, read off its conditions.\<close>

definition sql_matches :: "database \<Rightarrow> string \<Rightarrow> searchFilters \<Rightarrow> moment_row \<Rightarrow> bool" where
  "sql_matches db username f m \<longleftrightarrow>
     (username = [] \<or> moment_username m = username)
     \<and> (case filter_title f of
          None \<Rightarrow> True
        | Some t \<Rightarrow> ilike (lc_lower db) (''%'' @ t @ ''%'') (moment_title m))
     \<and> (case filter_text f of
          None \<Rightarrow> True
        | Some t \<Rightarrow> ilike (lc_lower db) (''%'' @ t @ ''%'') (moment_text m))
     \<and> (case filter_dateStart f of None \<Rightarrow> True | Some d \<Rightarrow> moment_date m \<ge> d)
     \<and> (case filter_dateEnd f of None \<Rightarrow> True | Some d \<Rightarrow> moment_date m \<le> d)
     \<and> (case filter_tag f of
          None \<Rightarrow> True
        | Some g \<Rightarrow> g \<in> set (map tag_name (joined_tags db m)))"

text \<open>
  The values the specification wants in the parameter array, in the order of the pushes:
  the username, the title and the text between \<^verbatim>\<open>%\<close>, the two dates, the tag.
\<close>

definition pushed_values :: "string \<Rightarrow> searchFilters \<Rightarrow> sqlval list" where
  "pushed_values username f =
     (if username \<noteq> [] then [SText username] else [])
     @ (case filter_title f of None \<Rightarrow> [] | Some t \<Rightarrow> [SText (''%'' @ t @ ''%'')])
     @ (case filter_text f of None \<Rightarrow> [] | Some t \<Rightarrow> [SText (''%'' @ t @ ''%'')])
     @ (case filter_dateStart f of None \<Rightarrow> [] | Some d \<Rightarrow> [SDate d])
     @ (case filter_dateEnd f of None \<Rightarrow> [] | Some d \<Rightarrow> [SDate d])
     @ (case filter_tag f of None \<Rightarrow> [] | Some g \<Rightarrow> [SText g])"

text \<open>The value a condition is meant to compare its column with.\<close>

fun intended_value ::
  "string \<Rightarrow> searchFilters \<Rightarrow> moment_column \<Rightarrow> comparison \<Rightarrow> sqlval option" where
  "intended_value username f ColUsername Equals = Some (SText username)"
| "intended_value username f ColTitle ILike =
     map_option (\<lambda>t. SText (''%'' @ t @ ''%'')) (filter_title f)"
| "intended_value username f ColText ILike =
     map_option (\<lambda>t. SText (''%'' @ t @ ''%'')) (filter_text f)"
| "intended_value username f ColDate AtLeast = map_option SDate (filter_dateStart f)"
| "intended_value username f ColDate AtMost = map_option SDate (filter_dateEnd f)"
| "intended_value username f c opr = None"




section \<open>Concrete inputs\<close>

text \<open>
  A PostgreSQL database whose id columns are of type integer and whose date column holds
  the days of the type date, counted from 2000-01-01; its locale folds the letters of
  Latin-1.
\<close>

definition pg_accepts :: "sqlval \<Rightarrow> bool" where
  "pg_accepts v =
     (case v of
        SInt i \<Rightarrow> - 2147483648 \<le> i \<and> i \<le> 2147483647
      | SText s \<Rightarrow> list_all (\<lambda>c. c \<noteq> CHR 0x00) s
      | SDate d \<Rightarrow> - 2451545 \<le> d \<and> d \<le> 2145031948)"

definition latin1_lower :: "char \<Rightarrow> char" where
  "latin1_lower c =
     (case map_of
        (zip (''ABCDEFGHIJKLMNOPQRSTUVWXYZ'' @
              [CHR 0xC0, CHR 0xC1, CHR 0xC2, CHR 0xC3, CHR 0xC4, CHR 0xC5, CHR 0xC6,
               CHR 0xC7, CHR 0xC8, CHR 0xC9, CHR 0xCA, CHR 0xCB, CHR 0xCC, CHR 0xCD,
               CHR 0xCE, CHR 0xCF, CHR 0xD0, CHR 0xD1, CHR 0xD2, CHR 0xD3, CHR 0xD4,
               CHR 0xD5, CHR 0xD6, CHR 0xD8, CHR 0xD9, CHR 0xDA, CHR 0xDB, CHR 0xDC,
               CHR 0xDD, CHR 0xDE])
             (''abcdefghijklmnopqrstuvwxyz'' @
              [CHR 0xE0, CHR 0xE1, CHR 0xE2, CHR 0xE3, CHR 0xE4, CHR 0xE5, CHR 0xE6,
               CHR 0xE7, CHR 0xE8, CHR 0xE9, CHR 0xEA, CHR 0xEB, CHR 0xEC, CHR 0xED,
               CHR 0xEE, CHR 0xEF, CHR 0xF0, CHR 0xF1, CHR 0xF2, CHR 0xF3, CHR 0xF4,
               CHR 0xF5, CHR 0xF6, CHR 0xF8, CHR 0xF9, CHR 0xFA, CHR 0xFB, CHR 0xFC,
               CHR 0xFD, CHR 0xFE])) c of
        None \<Rightarrow> c
      | Some l \<Rightarrow> l)"

text \<open>
  A database with two users, three moments, one tag on the first moment and one media
  row; one in which a user with the empty username exists; and one with a title in
  capital letters, the first of them accented.
\<close>

definition db1 :: database where
  "db1 =
     \<lparr>users = [''ann'', ''bob''],
      moments =
        [\<lparr>moment_id = 1, moment_title = ''Dog walk'', moment_text = ''sunny'',
          moment_date = 10, moment_username = ''ann''\<rparr>,
         \<lparr>moment_id = 2, moment_title = ''Cat nap'', moment_text = ''rainy'',
          moment_date = 20, moment_username = ''ann''\<rparr>,
         \<lparr>moment_id = 3, moment_title = ''Dogma'', moment_text = ''windy'',
          moment_date = 15, moment_username = ''bob''\<rparr>],
      moment_media =
        [\<lparr>media_id = 1, media_type = ''image'', media_url = ''dog.png'', media_moment_id = 1\<rparr>],
      tags = [\<lparr>tag_id = 1, tag_name = ''pets''\<rparr>],
      moments_tags = [\<lparr>mt_moment_id = 1, mt_tag_id = 1\<rparr>],
      accepts = pg_accepts, lc_lower = latin1_lower\<rparr>"

definition db2 :: database where
  "db2 =
     \<lparr>users = [[], ''bob''],
      moments =
        [\<lparr>moment_id = 3, moment_title = ''Dogma'', moment_text = ''windy'',
          moment_date = 15, moment_username = ''bob''\<rparr>],
      moment_media = [], tags = [], moments_tags = [],
      accepts = pg_accepts, lc_lower = latin1_lower\<rparr>"

definition db3 :: database where
  "db3 =
     \<lparr>users = [''zoe''],
      moments =
        [\<lparr>moment_id = 1, moment_title = [CHR 0xC9] @ ''COLE'', moment_text = ''first day'',
          moment_date = 30, moment_username = ''zoe''\<rparr>],
      moment_media = [], tags = [], moments_tags = [],
      accepts = pg_accepts, lc_lower = latin1_lower\<rparr>"

definition no_filters :: searchFilters where
  "no_filters =
     \<lparr>filter_tag = None, filter_title = None, filter_text = None,
      filter_dateStart = None, filter_dateEnd = None\<rparr>"

definition no_data :: update_data where
  "no_data = \<lparr>data_title = None, data_text = None, data_date = None\<rparr>"

text \<open>
  Inputs used below: a verifier that accepts the single token \<open>abc\<close> under the key
  \<open>secret\<close>, and requests built around one header or one user.
\<close>

definition bob_payload :: jwt_payload where
  "bob_payload = \<lparr>payload_username = Some ''bob''\<rparr>"

definition verify_abc :: "string \<Rightarrow> string \<Rightarrow> jwt_payload option" where
  "verify_abc token key = (if token = ''abc'' \<and> key = ''secret'' then Some bob_payload else None)"

definition req_with_header :: "string \<Rightarrow> express_req" where
  "req_with_header h =
     \<lparr>req_headers = Some \<lparr>hdr_authorization = Some h\<rparr>, req_user = None,
      params_username = None, body_username = None\<rparr>"

definition req_of_bob :: "string option \<Rightarrow> string option \<Rightarrow> express_req" where
  "req_of_bob p b =
     \<lparr>req_headers = None, req_user = Some bob_payload,
      params_username = p, body_username = b\<rparr>"

section \<open>Properties of the auth middleware\<close>

text \<open>
  C2, as stated, fails where the route parameter is present but empty: \<^verbatim>\<open>||\<close> falls
  through to the body, so user bob passes with an empty route parameter and the body
  username \<open>bob\<close>, although bob differs from the route parameter.
\<close>

theorem ensureCorrectUser_empty_param_counterexample:
  "ensureCorrectUser (req_of_bob (Some []) (Some ''bob'')) \<noteq> Inl UnauthorizedError
   \<and> req_user (req_of_bob (Some []) (Some ''bob'')) = Some bob_payload
   \<and> payload_username bob_payload \<noteq> spec_target_username (req_of_bob (Some []) (Some ''bob''))"
  by (simp add: ensureCorrectUser_def req_of_bob_def bob_payload_def js_or_def
      spec_target_username_def)

text \<open>
  C2 (amended): ensureCorrectUser raises UnauthorizedError if and only if there is no
  authenticated user or the user's username differs from the username taken from the route
  parameter if that is present and non-empty, otherwise from the request body; when it does
  not raise, the request proceeds unchanged.
\<close>

theorem ensureCorrectUser_unauthorized_iff:
  "(ensureCorrectUser req = Inl UnauthorizedError \<longleftrightarrow>
      (req_user req = None \<or>
       map_option payload_username (req_user req) \<noteq>
         Some (if params_username req = None \<or> params_username req = Some []
               then body_username req else params_username req)))
   \<and> (ensureCorrectUser req = Inl UnauthorizedError \<or> ensureCorrectUser req = Inr req)"
  by (cases "req_user req"; cases "params_username req")
     (auto simp: ensureCorrectUser_def js_or_def)

theorem ensureCorrectUser_unauthorized_iff_witness:
  "ensureCorrectUser (req_of_bob (Some ''bob'') None) = Inr (req_of_bob (Some ''bob'') None)
   \<and> ensureCorrectUser (req_of_bob None (Some ''eve'')) = Inl UnauthorizedError"
  using ensureCorrectUser_unauthorized_iff [of "req_of_bob (Some ''bob'') None"]
    ensureCorrectUser_unauthorized_iff [of "req_of_bob None (Some ''eve'')"]
  by (auto simp: req_of_bob_def bob_payload_def)

text \<open>
  C6, as stated, fails on a prefix in another letter case: the pattern \<^verbatim>\<open>/^[Bb]earer /\<close>
  does not match \<open>BEARER \<close>, so the whole header is verified and rejected, and
  \<^verbatim>\<open>req.user\<close> stays unset although the token behind the prefix is valid.
\<close>

theorem authenticateJWT_uppercase_counterexample:
  "authenticateJWT verify_abc ''secret'' (req_with_header ''BEARER abc'')
     = Inr (req_with_header ''BEARER abc'')
   \<and> req_user (req_with_header ''BEARER abc'') = None
   \<and> verify_abc (spec_strip_bearer ''BEARER abc'') ''secret'' = Some bob_payload"
  by (simp add: authenticateJWT_def authHeader_of_def req_with_header_def verify_abc_def
      replace_bearer_def trim_def is_js_space_def spec_strip_bearer_def ascii_lower_def)

text \<open>
  C6 (amended): authenticateJWT never passes an error on.  It removes a leading
  \<open>Bearer \<close> or \<open>bearer \<close> (no other letter case) from a non-empty Authorization header,
  trims the rest, verifies it against SECRET_KEY, and stores the payload on \<^verbatim>\<open>req.user\<close>
  exactly when that verification succeeds; in every other case the request continues
  unchanged.
\<close>

theorem authenticateJWT_stores_verified_payload:
  "(authenticateJWT verify key req = Inr req \<or>
      (\<exists>h p. authHeader_of req = Some h \<and> h \<noteq> [] \<and>
             verify (trim (replace_bearer h)) key = Some p \<and>
             authenticateJWT verify key req = Inr (req\<lparr>req_user := Some p\<rparr>)))
   \<and> (authHeader_of req = Some h \<and> h \<noteq> [] \<and> verify (trim (replace_bearer h)) key = Some p
        \<longrightarrow> authenticateJWT verify key req = Inr (req\<lparr>req_user := Some p\<rparr>))
   \<and> replace_bearer (''Bearer '' @ t) = t
   \<and> replace_bearer (''bearer '' @ t) = t
   \<and> (\<not> prefix ''Bearer '' h \<and> \<not> prefix ''bearer '' h \<longrightarrow> replace_bearer h = h)"
  by (cases "authHeader_of req")
     (auto simp: authenticateJWT_def replace_bearer_def Let_def split: option.splits)

theorem authenticateJWT_stores_verified_payload_witness:
  "authenticateJWT verify_abc ''secret'' (req_with_header ''bearer abc '')
     = Inr ((req_with_header ''bearer abc '')\<lparr>req_user := Some bob_payload\<rparr>)
   \<and> replace_bearer ''Basic abc'' = ''Basic abc''"
  using authenticateJWT_stores_verified_payload
    [of verify_abc "''secret''" "req_with_header ''bearer abc ''" "''bearer abc ''" bob_payload]
    authenticateJWT_stores_verified_payload
    [of verify_abc "''secret''" "req_with_header ''bearer abc ''" "''Basic abc''"]
  by (simp add: authHeader_of_def req_with_header_def verify_abc_def replace_bearer_def
      trim_def is_js_space_def)

section \<open>Properties of the frontend client\<close>

text \<open>
  C8, as stated, fails for a request that fails without a response (the server is
  unreachable): \<^verbatim>\<open>err.response\<close> is undefined, reading \<^verbatim>\<open>.data\<close> from it throws, and
  the caller receives a TypeError, not an array.
\<close>

theorem request_no_response_counterexample:
  "request (Rejected (JObj [(''message'', JStr ''Network Error'')])) = Inl ThrownTypeError
   \<and> \<not> thrown_is_array ThrownTypeError"
  by (simp add: request_def error_message_def)

text \<open>
  C8 (amended): for every failed API request whose error carries a response with a body of
  the shape \<^verbatim>\<open>{error: {...}}\<close>, the value thrown to the caller is an array: the server's
  error message as it is when it is an array, and a one-element array holding it otherwise.
\<close>

theorem request_throws_message_array:
  assumes "map_of err ''response'' = Some (JObj response)"
    and "map_of response ''data'' = Some (JObj body)"
    and "map_of body ''error'' = Some (JObj e)"
    and "message = (case map_of e ''message'' of None \<Rightarrow> JUndefined | Some v \<Rightarrow> v)"
  shows "request (Rejected (JObj err))
           = Inl (ThrownValue (if isArray message then message else JArr [message]))
         \<and> (\<exists>xs. request (Rejected (JObj err)) = Inl (ThrownValue (JArr xs)))"
proof -
  have msg: "error_message (JObj err) = Inr message"
    using assms by (simp add: error_message_def)
  have thrown: "request (Rejected (JObj err))
      = Inl (ThrownValue (if isArray message then message else JArr [message]))"
    by (simp add: request_def msg)
  show ?thesis
  proof (cases message)
    case (JArr xs)
    with thrown show ?thesis by simp
  qed (use thrown in simp_all)
qed

theorem request_throws_message_array_witness:
  "request (Rejected (JObj [(''response'',
      JObj [(''data'', JObj [(''error'', JObj [(''message'', JStr ''No moment: 7'')])])])]))
     = Inl (ThrownValue (JArr [JStr ''No moment: 7'']))"
  using request_throws_message_array
    [of "[(''response'',
           JObj [(''data'', JObj [(''error'', JObj [(''message'', JStr ''No moment: 7'')])])])]"
        "[(''data'', JObj [(''error'', JObj [(''message'', JStr ''No moment: 7'')])])]"
        "[(''error'', JObj [(''message'', JStr ''No moment: 7'')])]"
        "[(''message'', JStr ''No moment: 7'')]"
        "JStr ''No moment: 7''"]
  by simp

section \<open>Facts about LIKE patterns\<close>

lemma like_percent: "like_match ''%'' s"
  by (induction s) simp_all

lemma like_prefix:
  "wildcard_free p \<Longrightarrow> like_match (p @ ''%'') s \<longleftrightarrow> prefix p s"
proof (induction p arbitrary: s)
  case Nil
  then show ?case using like_percent by simp
next
  case (Cons a p)
  then show ?case
    by (cases s) (auto simp: wildcard_free_def is_wildcard_def)
qed

lemma like_sublist:
  "wildcard_free p \<Longrightarrow> like_match (CHR ''%'' # p @ ''%'') s \<longleftrightarrow> sublist p s"
proof (induction s)
  case Nil
  then show ?case using like_prefix [of p "[]"] by simp
next
  case (Cons c cs)
  then show ?case using like_prefix [of p "c # cs"]
    by (simp add: sublist_Cons_right)
qed

lemma locale_wildcard:
  assumes "locale_ok db"
  shows "is_wildcard (lc_lower db c) \<longleftrightarrow> is_wildcard c"
  using assms unfolding locale_ok_def by metis

lemma locale_percent:
  assumes "locale_ok db"
  shows "lc_lower db CHR ''%'' = CHR ''%''"
  using assms by (simp add: locale_ok_def is_wildcard_def)

lemma wildcard_free_lower:
  "locale_ok db \<Longrightarrow> wildcard_free (map (lc_lower db) t) = wildcard_free t"
  by (simp add: wildcard_free_def list_all_iff locale_wildcard)

lemma ilike_substring:
  assumes "locale_ok db" and "wildcard_free t"
  shows "ilike (lc_lower db) (CHR ''%'' # t @ ''%'') s
           \<longleftrightarrow> sublist (map (lc_lower db) t) (map (lc_lower db) s)"
  using like_sublist [of "map (lc_lower db) t" "map (lc_lower db) s"] assms
  by (simp add: ilike_def wildcard_free_lower locale_percent)

lemma latin1_wildcard:
  "is_wildcard c \<or> is_wildcard (latin1_lower c) \<longrightarrow> latin1_lower c = c"
  by (auto simp: latin1_lower_def is_wildcard_def split: option.splits if_splits)

lemma latin1_locale_ok: "lc_lower db = latin1_lower \<Longrightarrow> locale_ok db"
  using latin1_wildcard by (simp add: locale_ok_def)

section \<open>Facts about the query of findAll\<close>

lemmas query_defs = findAll_query_def push_where_def Let_def where_ok_def where_holds_def
  eval_where_def param_def having_ok_def having_holds_def

lemma findAll_query_cases:
  "case findAll_query username f of
     (ws, having, vs) \<Rightarrow>
       list_all (where_ok db vs) ws \<and> having_ok vs having
       \<and> (list_all (where_holds db vs m) ws \<and> having_holds db vs m having)
           = sql_matches db username f m"
  by (cases "filter_title f"; cases "filter_text f"; cases "filter_dateStart f";
      cases "filter_dateEnd f"; cases "filter_tag f"; cases "username = []")
     (simp_all add: query_defs sql_matches_def)

lemma findAll_query_accepted:
  assumes "findAll_query username f = (ws, having, vs)"
  shows "list_all (where_ok db vs) ws \<and> having_ok vs having"
  using findAll_query_cases [where username = username and f = f and db = db]
  unfolding assms prod.case by simp

lemma findAll_query_meaning:
  assumes "findAll_query username f = (ws, having, vs)"
  shows "(list_all (where_holds db vs m) ws \<and> having_holds db vs m having)
           = sql_matches db username f m"
  using findAll_query_cases [where username = username and f = f and m = m and db = db]
  unfolding assms prod.case by simp

lemma findAll_query_pushes:
  "case findAll_query username f of
     (ws, having, vs) \<Rightarrow>
       vs = pushed_values username f
       \<and> map (\<lambda>(c, opr, k). k) ws @ (case having of None \<Rightarrow> [] | Some k \<Rightarrow> [k])
           = [1..<Suc (length vs)]
       \<and> list_all (\<lambda>(c, opr, k). param vs k = intended_value username f c opr) ws
       \<and> (case having of
            None \<Rightarrow> filter_tag f = None
          | Some k \<Rightarrow> filter_tag f \<noteq> None \<and> param vs k = map_option SText (filter_tag f))"
  by (cases "filter_title f"; cases "filter_text f"; cases "filter_dateStart f";
      cases "filter_dateEnd f"; cases "filter_tag f"; cases "username = []")
     (simp_all add: findAll_query_def push_where_def Let_def pushed_values_def param_def)

lemma findAll_of_user:
  assumes "username \<in> set (users db)"
    and "binds db [SText username]"
    and "binds db (pushed_values username f)"
  shows "findAll db username f
     = Inr (order_by_date_desc
              (map (found_row db) (filter (sql_matches db username f) (moments db))))"
proof -
  obtain ws having vs where q: "findAll_query username f = (ws, having, vs)"
    by (cases "findAll_query username f")
  have vs: "vs = pushed_values username f"
    using findAll_query_pushes [of username f] unfolding q prod.case by blast
  have "filter (\<lambda>u. u = username) (users db) \<noteq> []"
    using assms(1) by (simp add: filter_empty_conv)
  then obtain u us where u: "filter (\<lambda>u. u = username) (users db) = u # us"
    by (cases "filter (\<lambda>u. u = username) (users db)") simp_all
  have "findAll db username f = select_moments db ws having vs"
    using assms(2) by (simp add: findAll_def u q)
  also have "\<dots> = Inr (order_by_date_desc
              (map (found_row db) (filter (sql_matches db username f) (moments db))))"
    using findAll_query_accepted [OF q, of db] findAll_query_meaning [OF q, of db]
      assms(3)
    by (simp add: select_moments_def vs)
  finally show ?thesis .
qed

lemma pushed_username_binds:
  "username \<noteq> [] \<Longrightarrow> binds db (pushed_values username f) \<Longrightarrow> binds db [SText username]"
  by (simp add: pushed_values_def binds_def)

lemma sql_matches_spec:
  assumes "username \<noteq> []"
    and "case filter_title f of None \<Rightarrow> True | Some t \<Rightarrow> wildcard_free t"
    and "case filter_text f of None \<Rightarrow> True | Some t \<Rightarrow> wildcard_free t"
    and "locale_ok db"
  shows "sql_matches db username f m = spec_matches db username f m"
  using assms
  by (cases "filter_title f"; cases "filter_text f")
     (simp_all add: sql_matches_def spec_matches_def ilike_substring)

lemma order_by_date_desc_sorted:
  "sorted_wrt (\<lambda>a b. found_date a \<ge> found_date b) (order_by_date_desc xs)"
  using sorted_sort_key [of "\<lambda>r. - found_date r" xs]
  by (simp add: order_by_date_desc_def sorted_map)




section \<open>Facts about update\<close>

lemma apply_sets_payload:
  "apply_sets (snd (sqlForPartialUpdate d) @ [SInt i]) (fst (sqlForPartialUpdate d)) m
     = Some (spec_updated d m)"
  by (cases "data_title d"; cases "data_text d"; cases "data_date d")
     (simp_all add: sqlForPartialUpdate_def data_entries_def param_def spec_updated_def)

lemma param_id: "param (vs @ [SInt i]) (Suc (length vs)) = Some (SInt i)"
  by (simp add: param_def)

lemma setCols_empty_iff:
  "fst (sqlForPartialUpdate d) = []
     \<longleftrightarrow> data_title d = None \<and> data_text d = None \<and> data_date d = None"
  by (cases "data_title d"; cases "data_text d"; cases "data_date d")
     (simp_all add: sqlForPartialUpdate_def data_entries_def)

lemma spec_updated_id [simp]: "moment_id (spec_updated d m) = moment_id m"
  by (simp add: spec_updated_def)

lemma update_moments_payload:
  assumes "data_title d \<noteq> None \<or> data_text d \<noteq> None \<or> data_date d \<noteq> None"
  shows "update_moments db (fst (sqlForPartialUpdate d))
           (Suc (length (snd (sqlForPartialUpdate d))))
           (snd (sqlForPartialUpdate d) @ [SInt i])
         = (Inr (map (spec_updated d) (filter (\<lambda>m. moment_id m = i) (moments db))),
            db\<lparr>moments :=
                 map (\<lambda>m. if moment_id m = i then spec_updated d m else m) (moments db)\<rparr>)"
proof -
  have ne: "fst (sqlForPartialUpdate d) \<noteq> []"
    using assms by (simp add: setCols_empty_iff)
  have flt: "filter (\<lambda>m. moment_id m = i)
               (map (\<lambda>m. if moment_id m = i then spec_updated d m else m) xs)
             = map (spec_updated d) (filter (\<lambda>m. moment_id m = i) xs)" for xs
    by (induction xs) simp_all
  show ?thesis
    by (simp add: update_moments_def ne apply_sets_payload param_id Let_def flt)
qed

lemma update_payload:
  assumes "data_title d \<noteq> None \<or> data_text d \<noteq> None \<or> data_date d \<noteq> None"
  shows "update db i d =
     (case filter (\<lambda>m. moment_id m = i) (moments db) of
        [] \<Rightarrow> Inl NotFoundError
      | m # _ \<Rightarrow> Inr (spec_updated d m),
      db\<lparr>moments := map (\<lambda>m. if moment_id m = i then spec_updated d m else m) (moments db)\<rparr>)"
proof -
  obtain setCols vs where sv: "sqlForPartialUpdate d = (setCols, vs)"
    by (cases "sqlForPartialUpdate d")
  have um: "update_moments db setCols (Suc (length vs)) (vs @ [SInt i])
         = (Inr (map (spec_updated d) (filter (\<lambda>m. moment_id m = i) (moments db))),
            db\<lparr>moments :=
                 map (\<lambda>m. if moment_id m = i then spec_updated d m else m) (moments db)\<rparr>)"
    using update_moments_payload [OF assms, of db i] by (simp add: sv)
  show ?thesis
    by (cases "filter (\<lambda>m. moment_id m = i) (moments db)") (simp_all add: update_def sv um)
qed

lemma filter_id_empty: "filter (\<lambda>m. moment_id m = i) ms = [] \<longleftrightarrow> i \<notin> moment_id ` set ms"
  by (auto simp: filter_empty_conv)


section \<open>Properties of the moment model\<close>

text \<open>
  C1, as stated, fails in three places.  A title filter is put into a LIKE pattern as it
  is, so its \<^verbatim>\<open>_\<close> and \<^verbatim>\<open>%\<close> are wildcards: the filter \<open>d_g\<close> finds the moment titled
  \<open>Dog walk\<close>, of which it is no substring.  \<^verbatim>\<open>if (username)\<close> skips the condition on the
  owner for the empty username: where a user with that name exists, the moments of all
  users are returned.  And nothing is returned where NotFoundError is raised, for a
  username without a users row, or where the database rejects a parameter, as it does a
  filter value with a NUL character.
\<close>

theorem findAll_substring_counterexample:
  "findAll db1 ''ann'' (no_filters\<lparr>filter_title := Some ''d_g''\<rparr>)
     = Inr [found_row db1 (moments db1 ! 0)]
   \<and> \<not> spec_matches db1 ''ann'' (no_filters\<lparr>filter_title := Some ''d_g''\<rparr>) (moments db1 ! 0)
   \<and> findAll db2 [] no_filters = Inr [found_row db2 (moments db2 ! 0)]
   \<and> \<not> spec_matches db2 [] no_filters (moments db2 ! 0)
   \<and> findAll db1 ''zed'' no_filters = Inl NotFoundError
   \<and> findAll db1 ''ann'' (no_filters\<lparr>filter_tag := Some [CHR 0x00]\<rparr>) = Inl DatabaseError"
  by (simp add: findAll_def db1_def db2_def no_filters_def query_defs select_moments_def
      order_by_date_desc_def found_row_def ilike_def latin1_lower_def joined_tags_def
      blank_moment_def spec_matches_def sublist_code(3) binds_def pg_accepts_def)

text \<open>
  C1 (amended): for every non-empty username that has a users row and every subset of the
  search filters title, text, tag, dateStart, dateEnd whose values the database accepts as
  parameters and in which title and text contain none of the LIKE metacharacters \<^verbatim>\<open>%\<close>,
  \<^verbatim>\<open>_\<close> and backslash, findAll returns exactly the user's moments that satisfy the
  conjunction of the given filters (each such moment once): title and text as substrings
  without regard to letter case, as the locale of the database folds it, dateStart and
  dateEnd as inclusive bounds on the date, tag as a member of the moment's aggregated tag
  names; filters that are not supplied impose no restriction.
\<close>

theorem findAll_returns_matching:
  assumes "username \<noteq> []"
    and "username \<in> set (users db)"
    and "case filter_title f of None \<Rightarrow> True | Some t \<Rightarrow> wildcard_free t"
    and "case filter_text f of None \<Rightarrow> True | Some t \<Rightarrow> wildcard_free t"
    and "locale_ok db"
    and "binds db (pushed_values username f)"
  shows "\<exists>rows. findAll db username f = Inr rows
           \<and> mset rows
             = mset (map (found_row db) (filter (spec_matches db username f) (moments db)))"
proof -
  have same: "sql_matches db username f = spec_matches db username f"
    using sql_matches_spec [OF assms(1,3,4,5)] by (rule ext)
  have user: "binds db [SText username]"
    using assms(1,6) by (rule pushed_username_binds)
  show ?thesis
    by (simp add: findAll_of_user [OF assms(2) user assms(6)] same order_by_date_desc_def)
qed

theorem findAll_returns_matching_witness:
  "(\<exists>rows. findAll db1 ''ann''
             (no_filters\<lparr>filter_title := Some ''DOG'', filter_dateEnd := Some 12\<rparr>) = Inr rows
      \<and> mset rows = {#found_row db1 (moments db1 ! 0)#})
   \<and> (\<exists>rows. findAll db3 ''zoe''
             (no_filters\<lparr>filter_title := Some ([CHR 0xE9] @ ''cole'')\<rparr>) = Inr rows
      \<and> mset rows = {#found_row db3 (moments db3 ! 0)#})"
  using findAll_returns_matching
    [of "''ann''" db1 "no_filters\<lparr>filter_title := Some ''DOG'', filter_dateEnd := Some 12\<rparr>"]
    findAll_returns_matching
    [of "''zoe''" db3 "no_filters\<lparr>filter_title := Some ([CHR 0xE9] @ ''cole'')\<rparr>"]
    latin1_locale_ok [of db1] latin1_locale_ok [of db3]
  by (simp add: db1_def db3_def no_filters_def wildcard_free_def is_wildcard_def
      spec_matches_def latin1_lower_def sublist_code(3) binds_def pushed_values_def
      pg_accepts_def)

text \<open>
  C3, as stated, fails in two ways.  For update with an empty payload the SET clause is
  empty and the database rejects the statement.  And every one of the functions awaits
  its query without a guard, so for a key that the database does not accept as a
  parameter (an id beyond the range of the integer column, a username with a NUL
  character) the rejection is thrown.  In both cases no row has the key and the error is
  not NotFoundError.
\<close>

theorem notFound_not_raised_counterexample:
  "fst (update db1 99 no_data) = Inl DatabaseError
   \<and> 99 \<notin> moment_id ` set (moments db1)
   \<and> get db1 2147483648 = Inl DatabaseError
   \<and> fst (remove Cascade db1 2147483648) = Inl DatabaseError
   \<and> 2147483648 \<notin> moment_id ` set (moments db1)
   \<and> findAll db1 (''zed'' @ [CHR 0x00]) no_filters = Inl DatabaseError
   \<and> ''zed'' @ [CHR 0x00] \<notin> set (users db1)"
  by (simp add: update_def sqlForPartialUpdate_def data_entries_def no_data_def
      update_moments_def db1_def get_def remove_def delete_moment_def findAll_def
      binds_def pg_accepts_def)

text \<open>
  C3 (amended): for every id that the database accepts as a parameter, get and remove
  raise NotFoundError if and only if no moments row has the id; update, for a payload
  that is not empty and whose values the database accepts, raises NotFoundError if and
  only if no moments row has the id; for every username that the database accepts,
  findAll raises NotFoundError if and only if no users row has the username, whatever the
  filters.
\<close>

theorem notFound_iff_key_absent:
  "(accepts db (SInt i) \<longrightarrow>
      (get db i = Inl NotFoundError \<longleftrightarrow> i \<notin> moment_id ` set (moments db)))
   \<and> (binds db (snd (sqlForPartialUpdate d) @ [SInt i])
        \<and> (data_title d \<noteq> None \<or> data_text d \<noteq> None \<or> data_date d \<noteq> None) \<longrightarrow>
        (fst (update db i d) = Inl NotFoundError \<longleftrightarrow> i \<notin> moment_id ` set (moments db)))
   \<and> (accepts db (SInt i) \<longrightarrow>
        (fst (remove fk db i) = Inl NotFoundError \<longleftrightarrow> i \<notin> moment_id ` set (moments db)))
   \<and> (accepts db (SText username) \<longrightarrow>
        (findAll db username f = Inl NotFoundError \<longleftrightarrow> username \<notin> set (users db)))"
proof (intro conjI impI)
  assume "accepts db (SInt i)"
  then show "get db i = Inl NotFoundError \<longleftrightarrow> i \<notin> moment_id ` set (moments db)"
    by (cases "filter (\<lambda>m. moment_id m = i) (moments db)")
       (simp_all add: get_def binds_def flip: filter_id_empty)
next
  assume "binds db (snd (sqlForPartialUpdate d) @ [SInt i])
    \<and> (data_title d \<noteq> None \<or> data_text d \<noteq> None \<or> data_date d \<noteq> None)"
  then have "data_title d \<noteq> None \<or> data_text d \<noteq> None \<or> data_date d \<noteq> None" ..
  then show "fst (update db i d) = Inl NotFoundError \<longleftrightarrow> i \<notin> moment_id ` set (moments db)"
    by (cases "filter (\<lambda>m. moment_id m = i) (moments db)")
       (simp_all add: update_payload flip: filter_id_empty)
next
  assume "accepts db (SInt i)"
  then show "fst (remove fk db i) = Inl NotFoundError \<longleftrightarrow> i \<notin> moment_id ` set (moments db)"
    by (cases "filter (\<lambda>m. moment_id m = i) (moments db)")
       (simp_all add: remove_def delete_moment_def Let_def binds_def flip: filter_id_empty)
next
  assume ok: "accepts db (SText username)"
  have sel: "select_moments db ws h vs \<noteq> Inl NotFoundError" for ws h vs
    by (simp add: select_moments_def)
  have flt: "filter (\<lambda>u. u = username) (users db) = [] \<longleftrightarrow> username \<notin> set (users db)"
    by (auto simp: filter_empty_conv)
  show "findAll db username f = Inl NotFoundError \<longleftrightarrow> username \<notin> set (users db)"
    using ok
    by (cases "filter (\<lambda>u. u = username) (users db)")
       (simp_all add: findAll_def binds_def sel split: prod.splits flip: flt)
qed

theorem notFound_iff_key_absent_witness:
  "get db1 99 = Inl NotFoundError
   \<and> fst (update db1 99 (no_data\<lparr>data_title := Some ''New''\<rparr>)) = Inl NotFoundError
   \<and> fst (update db1 1 (no_data\<lparr>data_title := Some ''New''\<rparr>)) \<noteq> Inl NotFoundError
   \<and> fst (remove Cascade db1 99) = Inl NotFoundError
   \<and> findAll db1 ''zed'' no_filters = Inl NotFoundError
   \<and> findAll db1 ''bob'' no_filters \<noteq> Inl NotFoundError"
  using notFound_iff_key_absent
      [of db1 99 "no_data\<lparr>data_title := Some ''New''\<rparr>" Cascade "''zed''" no_filters]
    notFound_iff_key_absent
      [of db1 1 "no_data\<lparr>data_title := Some ''New''\<rparr>" Cascade "''bob''" no_filters]
  by (simp add: db1_def no_data_def binds_def pg_accepts_def sqlForPartialUpdate_def
      data_entries_def)

text \<open>
  C4: addMedia never returns the inserted row.  Where the database rejects the statement
  the call fails with that error and nothing is inserted; where it accepts it, the row is
  inserted and reading the undeclared \<^verbatim>\<open>results\<close> throws a ReferenceError.
\<close>

theorem addMedia_always_throws:
  "fst (addMedia accepted db momentId d)
     = Inl (if accepted then ReferenceError else DatabaseError)"
  by (simp add: addMedia_def insert_media_def Let_def)






text \<open>
  C9: the list findAll returns is sorted by date, newest first.
\<close>

theorem findAll_sorted_by_date_desc:
  assumes "findAll db username f = Inr rows"
  shows "sorted_wrt (\<lambda>a b. found_date a \<ge> found_date b) rows"
  using assms order_by_date_desc_sorted
  by (auto simp: findAll_def select_moments_def split: list.splits prod.splits if_splits)

theorem findAll_sorted_by_date_desc_witness:
  "findAll db1 ''ann'' no_filters
     = Inr [found_row db1 (moments db1 ! 1), found_row db1 (moments db1 ! 0)]
   \<and> sorted_wrt (\<lambda>a b. found_date a \<ge> found_date b)
       [found_row db1 (moments db1 ! 1), found_row db1 (moments db1 ! 0)]"
proof -
  have r: "findAll db1 ''ann'' no_filters
      = Inr [found_row db1 (moments db1 ! 1), found_row db1 (moments db1 ! 0)]"
    by (simp add: findAll_def db1_def no_filters_def query_defs select_moments_def
        order_by_date_desc_def found_row_def joined_tags_def blank_moment_def
        binds_def pg_accepts_def)
  from findAll_sorted_by_date_desc [OF r] r show ?thesis by simp
qed

text \<open>
  C10, as stated, fails for ids that the database does not accept: both functions await
  their DELETE without a guard, so for a momentMediaId or a tagId beyond the range of the
  integer column, which no row has, the rejection of the database is thrown.
\<close>

theorem removeMedia_out_of_range_counterexample:
  "removeMedia db1 2147483648 = (Inl DatabaseError, db1)
   \<and> 2147483648 \<notin> media_id ` set (moment_media db1)
   \<and> removeTag db1 1 2147483648 = (Inl DatabaseError, db1)
   \<and> (1, 2147483648) \<notin> (\<lambda>r. (mt_moment_id r, mt_tag_id r)) ` set (moments_tags db1)"
  by (simp add: removeMedia_def removeTag_def binds_def db1_def pg_accepts_def)

text \<open>
  C10 (amended): for every momentMediaId, and every pair of momentId and tagId, that the
  database accepts as parameters, removeMedia and removeTag do not throw for a target that
  does not exist: they return undefined, with the matching rows deleted and nothing else
  changed, and leave the database as it is when there is no matching row; remove, for an
  accepted id that no moment has, raises NotFoundError.
\<close>

theorem removeMedia_removeTag_accepted_ids:
  "(accepts db (SInt mid) \<longrightarrow>
      removeMedia db mid
        = (Inr (), db\<lparr>moment_media := filter (\<lambda>r. media_id r \<noteq> mid) (moment_media db)\<rparr>)
      \<and> (mid \<notin> media_id ` set (moment_media db) \<longrightarrow> removeMedia db mid = (Inr (), db)))
   \<and> (accepts db (SInt m) \<and> accepts db (SInt t) \<longrightarrow>
      removeTag db m t
        = (Inr (),
           db\<lparr>moments_tags :=
                filter (\<lambda>r. \<not> (mt_moment_id r = m \<and> mt_tag_id r = t)) (moments_tags db)\<rparr>)
      \<and> ((m, t) \<notin> (\<lambda>r. (mt_moment_id r, mt_tag_id r)) ` set (moments_tags db)
           \<longrightarrow> removeTag db m t = (Inr (), db)))
   \<and> (accepts db (SInt i) \<and> i \<notin> moment_id ` set (moments db)
        \<longrightarrow> remove fk db i = (Inl NotFoundError, db))"
proof (intro conjI impI)
  assume "accepts db (SInt mid)"
  then show "removeMedia db mid
      = (Inr (), db\<lparr>moment_media := filter (\<lambda>r. media_id r \<noteq> mid) (moment_media db)\<rparr>)"
    by (simp add: removeMedia_def binds_def)
next
  assume "accepts db (SInt mid)" and "mid \<notin> media_id ` set (moment_media db)"
  then have "filter (\<lambda>r. media_id r \<noteq> mid) (moment_media db) = moment_media db"
    by (auto simp: filter_id_conv)
  with \<open>accepts db (SInt mid)\<close> show "removeMedia db mid = (Inr (), db)"
    by (simp add: removeMedia_def binds_def)
next
  assume "accepts db (SInt m) \<and> accepts db (SInt t)"
  then show "removeTag db m t
      = (Inr (),
         db\<lparr>moments_tags :=
              filter (\<lambda>r. \<not> (mt_moment_id r = m \<and> mt_tag_id r = t)) (moments_tags db)\<rparr>)"
    by (simp add: removeTag_def binds_def)
next
  assume ok: "accepts db (SInt m) \<and> accepts db (SInt t)"
    and "(m, t) \<notin> (\<lambda>r. (mt_moment_id r, mt_tag_id r)) ` set (moments_tags db)"
  then have "filter (\<lambda>r. \<not> (mt_moment_id r = m \<and> mt_tag_id r = t)) (moments_tags db)
      = moments_tags db"
    by (auto simp: filter_id_conv image_iff)
  with ok show "removeTag db m t = (Inr (), db)"
    by (simp add: removeTag_def binds_def)
next
  assume "accepts db (SInt i) \<and> i \<notin> moment_id ` set (moments db)"
  then have "filter (\<lambda>m. moment_id m = i) (moments db) = []" and "binds db [SInt i]"
    by (simp_all add: filter_id_empty binds_def)
  then show "remove fk db i = (Inl NotFoundError, db)"
    by (simp add: remove_def delete_moment_def)
qed

theorem removeMedia_removeTag_accepted_ids_witness:
  "removeMedia db1 7 = (Inr (), db1)
   \<and> removeMedia db1 1 = (Inr (), db1\<lparr>moment_media := []\<rparr>)
   \<and> removeTag db1 1 5 = (Inr (), db1)
   \<and> removeTag db1 1 1 = (Inr (), db1\<lparr>moments_tags := []\<rparr>)
   \<and> remove Restrict db1 99 = (Inl NotFoundError, db1)"
  using removeMedia_removeTag_accepted_ids [of db1 7 1 5 99 Restrict]
    removeMedia_removeTag_accepted_ids [of db1 1 1 1 99 Restrict]
  by (simp add: db1_def pg_accepts_def)

end
